theory Spec2Isabelle
  imports Main
begin

section \<open>Python values the exporter relies on\<close>

text \<open>
  The program is one Python module, \<^verbatim>\<open>main.py\<close>. Strings are byte strings here (the
  program only handles ASCII text of its own plus the request path), Python's unbounded
  integers are \<^typ>\<open>int\<close>, and an exception that a call may raise is the left
  summand of its result.
\<close>

subsection \<open>Rendering an integer: \<^verbatim>\<open>str(int)\<close>, as an f-string applies it\<close>

definition digit_char :: "nat \<Rightarrow> char" where
  "digit_char d = ''0123456789'' ! d"

fun str_nat :: "nat \<Rightarrow> string" where
  "str_nat n = (if n < 10 then [digit_char n] else str_nat (n div 10) @ [digit_char (n mod 10)])"

declare str_nat.simps [simp del]

definition str_int :: "int \<Rightarrow> string" where
  "str_int i = (if i < 0 then CHR ''-'' # str_nat (nat (- i)) else str_nat (nat i))"

subsection \<open>Joining lines: \<^verbatim>\<open>sep.join(list)\<close>\<close>

definition newline :: string where
  "newline = [CHR 0x0A]"

fun str_join :: "string \<Rightarrow> string list \<Rightarrow> string" where
  "str_join sep [] = []"
| "str_join sep [x] = x"
| "str_join sep (x # y # ys) = x @ sep @ str_join sep (y # ys)"

subsection \<open>Reading an integer: \<^verbatim>\<open>int(str)\<close> in base 10\<close>

text \<open>
  \<^verbatim>\<open>int(s)\<close> strips surrounding whitespace, accepts one optional sign and then decimal
  digits, where single underscores may stand between two digits. Anything else raises
  \<^verbatim>\<open>ValueError\<close>, which is the value \<open>None\<close> here. This is Python's reading of
  ASCII text: beyond ASCII it also takes the decimal digits and the white space of other
  scripts, which a byte string does not show, so statements about \<open>py_int\<close> are made
  for ASCII strings. (Recent versions of Python also refuse a numeral of more than 4300
  digits; the model reads it.)
\<close>

definition is_ascii :: "string \<Rightarrow> bool" where
  "is_ascii s = list_all (\<lambda>c. (of_char c :: nat) < 128) s"

definition is_space :: "char \<Rightarrow> bool" where
  "is_space c = (c = CHR '' '' \<or> c = CHR 0x09 \<or> c = CHR 0x0A \<or> c = CHR 0x0B
                 \<or> c = CHR 0x0C \<or> c = CHR 0x0D)"

definition strip :: "string \<Rightarrow> string" where
  "strip s = rev (dropWhile is_space (rev (dropWhile is_space s)))"

definition digit_of :: "char \<Rightarrow> nat option" where
  "digit_of c =
     (let k = (of_char c :: nat) in if 48 \<le> k \<and> k \<le> 57 then Some (k - 48) else None)"

fun int_digits :: "nat \<Rightarrow> string \<Rightarrow> nat option" where
  "int_digits acc [] = Some acc"
| "int_digits acc (c # cs) =
     (case digit_of c of
        Some d \<Rightarrow> int_digits (10 * acc + d) cs
      | None \<Rightarrow>
          if c = CHR ''_'' then
            (case cs of
               [] \<Rightarrow> None
             | c' # cs' \<Rightarrow>
                 (case digit_of c' of
                    Some d \<Rightarrow> int_digits (10 * acc + d) cs'
                  | None \<Rightarrow> None))
          else None)"

definition unsigned_part :: "string \<Rightarrow> bool \<times> string" where
  "unsigned_part t =
     (case t of
        [] \<Rightarrow> (False, t)
      | c # r \<Rightarrow>
          if c = CHR ''-'' then (True, r)
          else if c = CHR ''+'' then (False, r)
          else (False, t))"

definition py_int :: "string \<Rightarrow> int option" where
  "py_int s =
     (case unsigned_part (strip s) of
        (neg, u) \<Rightarrow>
          (case u of
             [] \<Rightarrow> None
           | c # cs \<Rightarrow>
               (case digit_of c of
                  None \<Rightarrow> None
                | Some d \<Rightarrow>
                    map_option (\<lambda>n. if neg then - int n else int n) (int_digits d cs))))"

section \<open>Module level: configuration and logging\<close>

text \<open>
  \<open>environ\<close> is the process environment after \<^verbatim>\<open>load_dotenv()\<close> has run (line 9).
\<close>

type_synonym environ = "string \<rightharpoonup> string"

definition environ_get :: "environ \<Rightarrow> string \<Rightarrow> string \<Rightarrow> string" where
  "environ_get env k dflt = (case env k of Some v \<Rightarrow> v | None \<Rightarrow> dflt)"

definition EXPORTER_HOST :: "environ \<Rightarrow> string" where
  "EXPORTER_HOST env = environ_get env ''EXPORTER_HOST'' ''0.0.0.0''"

definition EXPORTER_PORT :: "environ \<Rightarrow> int option" where
  "EXPORTER_PORT env = py_int (environ_get env ''EXPORTER_PORT'' ''8081'')"

text \<open>A record written through the module's \<^verbatim>\<open>logger\<close>: its level and its message.\<close>

datatype level = INFO | WARNING | ERROR

type_synonym log_record = "level \<times> string"

section \<open>The operating system as \<^verbatim>\<open>psutil\<close> shows it\<close>

text \<open>
  An instance of a subclass of \<^verbatim>\<open>Exception\<close>; the payload is \<^verbatim>\<open>str(e)\<close>.
\<close>

datatype py_exception = Exception string

fun str_exception :: "py_exception \<Rightarrow> string" where
  "str_exception (Exception msg) = msg"

text \<open>
  The named tuples \<^verbatim>\<open>psutil.virtual_memory()\<close> and \<^verbatim>\<open>psutil.disk_usage(path)\<close>
  return. The type \<open>'f\<close> is Python's float; the program never computes with one, it only
  renders the CPU reading, so the rendering \<^verbatim>\<open>str(float)\<close> is a parameter
  \<open>str_float\<close> of every function that formats.
\<close>

record 'f svmem =
  vm_total :: int
  vm_available :: int
  vm_percent :: 'f
  vm_used :: int
  vm_free :: int

record 'f sdiskusage =
  du_total :: int
  du_used :: int
  du_free :: int
  du_percent :: 'f

text \<open>What the three calls answer at the time of one request.\<close>

record 'f psutil =
  cpu_percent :: "py_exception + 'f"
  virtual_memory :: "py_exception + 'f svmem"
  disk_usage :: "string \<Rightarrow> py_exception + 'f sdiskusage"

datatype os_call = Cpu_percent | Virtual_memory | Disk_usage string

section \<open>\<^verbatim>\<open>generate_metrics\<close> (lines 29 to 71)\<close>

definition metrics_lines ::
  "('f \<Rightarrow> string) \<Rightarrow> 'f \<Rightarrow> int \<Rightarrow> int \<Rightarrow> int \<Rightarrow> int \<Rightarrow> string list" where
  "metrics_lines str_float cpu_usage memory_total memory_used disk_total disk_used =
     [''# HELP cpu_usage CPU usage percentage'',
      ''# TYPE cpu_usage gauge'',
      ''cpu_usage '' @ str_float cpu_usage,
      ''# HELP memory_total Total system memory in bytes'',
      ''# TYPE memory_total gauge'',
      ''memory_total '' @ str_int memory_total,
      ''# HELP memory_used Used system memory in bytes'',
      ''# TYPE memory_used gauge'',
      ''memory_used '' @ str_int memory_used,
      ''# HELP disk_total Total disk space in bytes'',
      ''# TYPE disk_total gauge'',
      ''disk_total '' @ str_int disk_total,
      ''# HELP disk_used Used disk space in bytes'',
      ''# TYPE disk_used gauge'',
      ''disk_used '' @ str_int disk_used]"

text \<open>
  The result is the list of OS calls made, in order, and either the exception that the
  first failing call raised or the exposition text.
\<close>

definition generate_metrics ::
  "('f \<Rightarrow> string) \<Rightarrow> 'f psutil \<Rightarrow> os_call list \<times> (py_exception + string)" where
  "generate_metrics str_float os =
     (case cpu_percent os of
        Inl e \<Rightarrow> ([Cpu_percent], Inl e)
      | Inr cpu_usage \<Rightarrow>
          (case virtual_memory os of
             Inl e \<Rightarrow> ([Cpu_percent, Virtual_memory], Inl e)
           | Inr mem_info \<Rightarrow>
               (let memory_total = vm_total mem_info;
                    memory_used = memory_total - vm_available mem_info
                in case disk_usage os ''/'' of
                     Inl e \<Rightarrow> ([Cpu_percent, Virtual_memory, Disk_usage ''/''], Inl e)
                   | Inr disk_info \<Rightarrow>
                       (let disk_total = du_total disk_info;
                            disk_used = du_used disk_info
                        in ([Cpu_percent, Virtual_memory, Disk_usage ''/''],
                            Inr (str_join newline
                                  (metrics_lines str_float cpu_usage memory_total memory_used
                                     disk_total disk_used)))))))"

section \<open>Reading the exposition text\<close>

text \<open>
  What a scraper reads in the text. These functions are not code of the exporter; they
  say what "the value emitted for a metric" is: the lines of a text
  (\<^verbatim>\<open>text.split("\n")\<close>), and the value a text gives for a metric, which is the
  integer (as \<open>py_int\<close> reads it) that follows the metric's name and a space on the
  first line that starts with them.
\<close>

fun starts_with :: "string \<Rightarrow> string \<Rightarrow> bool" where
  "starts_with [] s = True"
| "starts_with (p # ps) [] = False"
| "starts_with (p # ps) (c # cs) = (p = c \<and> starts_with ps cs)"

fun split_lines :: "string \<Rightarrow> string list" where
  "split_lines [] = [[]]"
| "split_lines (c # cs) =
     (if c = CHR 0x0A then [] # split_lines cs
      else (case split_lines cs of
              [] \<Rightarrow> [[c]]
            | l # ls \<Rightarrow> (c # l) # ls))"

definition emitted_value :: "string \<Rightarrow> string \<Rightarrow> int option" where
  "emitted_value name body =
     (case List.find (starts_with (name @ '' '')) (split_lines body) of
        None \<Rightarrow> None
      | Some line \<Rightarrow> py_int (drop (length name + 1) line))"

section \<open>\<^verbatim>\<open>MetricsHandler\<close> (lines 74 to 101)\<close>

text \<open>
  The response as the handler builds it through the framework's calls: the status of
  \<^verbatim>\<open>send_response\<close>, the headers the handler adds itself with \<^verbatim>\<open>send_header\<close>, and
  the bytes written to \<^verbatim>\<open>wfile\<close>.
\<close>

record response =
  status :: nat
  headers :: "(string \<times> string) list"
  body :: string

definition send_response :: "nat \<Rightarrow> response" where
  "send_response code = \<lparr>status = code, headers = [], body = []\<rparr>"

definition send_header :: "string \<Rightarrow> string \<Rightarrow> response \<Rightarrow> response" where
  "send_header keyword val r = r\<lparr>headers := headers r @ [(keyword, val)]\<rparr>"

definition end_headers :: "response \<Rightarrow> response" where
  "end_headers r = r"

definition wfile_write :: "string \<Rightarrow> response \<Rightarrow> response" where
  "wfile_write bytes r = r\<lparr>body := body r @ bytes\<rparr>"

text \<open>
  What a request ends with: the response the handler sent, an error response the
  framework sent by \<^verbatim>\<open>send_error\<close> without running a handler method, or an exception
  raised before anything was sent. Beside it, \<open>os_calls\<close> lists the OS calls made for
  the request and \<open>logged\<close> the records written through the module's \<^verbatim>\<open>logger\<close>
  (the access line that the framework prints on standard error is not one of them).
  The exposition text is ASCII, so \<^verbatim>\<open>metrics.encode("utf-8")\<close> leaves it as it is.
\<close>

datatype reply = Sent response | Send_error nat | Raised py_exception

record handled =
  os_calls :: "os_call list"
  logged :: "log_record list"
  reply :: reply

definition do_GET :: "('f \<Rightarrow> string) \<Rightarrow> string \<Rightarrow> 'f psutil \<Rightarrow> handled" where
  "do_GET str_float path os =
     (if path = ''/'' then
        (case generate_metrics str_float os of
           (calls, Inl e) \<Rightarrow>
             \<lparr>os_calls = calls,
              logged = [(INFO, ''Received GET request for metrics.'')],
              reply = Raised e\<rparr>
         | (calls, Inr metrics) \<Rightarrow>
             \<lparr>os_calls = calls,
              logged = [(INFO, ''Received GET request for metrics.'')],
              reply = Sent (wfile_write metrics
                             (end_headers
                               (send_header ''Content-type'' ''text/plain''
                                 (send_response 200))))\<rparr>)
      else
        \<lparr>os_calls = [],
         logged = [(WARNING, ''Received GET request for unknown path: '' @ path)],
         reply = Sent (end_headers (send_response 404))\<rparr>)"

text \<open>
  The class defines the single method \<^verbatim>\<open>do_GET\<close>; the base class
  \<^verbatim>\<open>BaseHTTPRequestHandler\<close> defines no \<^verbatim>\<open>do_*\<close> method of its own.
\<close>

definition MetricsHandler ::
  "string \<Rightarrow> (('f \<Rightarrow> string) \<Rightarrow> string \<Rightarrow> 'f psutil \<Rightarrow> handled) option" where
  "MetricsHandler mname = (if mname = ''do_GET'' then Some do_GET else None)"

text \<open>
  The method dispatch, which is the last step of
  \<^verbatim>\<open>BaseHTTPRequestHandler.handle_one_request\<close> in Python's standard library. It runs
  once \<^verbatim>\<open>parse_request\<close> has accepted the request; \<open>command\<close> and \<open>path\<close> are
  \<^verbatim>\<open>self.command\<close> and \<^verbatim>\<open>self.path\<close> as \<^verbatim>\<open>parse_request\<close> has stored them (it
  has reduced a run of slashes at the start of the path to one slash by then). The
  method named \<^verbatim>\<open>'do_' + self.command\<close> is looked up on the handler; when the class has
  none, the framework answers 501 by \<^verbatim>\<open>send_error\<close> and no code of the program runs.
  What the library does before this step is not part of \<open>dispatch\<close>: a request line
  of more than 65536 bytes is answered 414, and a request that \<^verbatim>\<open>parse_request\<close>
  refuses (a malformed line or version, a request without a version whose command is
  not GET, a version from 2.0 on, headers that are too long or too many) is answered
  400, 505 or 431 by the framework; none of them gets here.
\<close>

definition dispatch ::
  "('f \<Rightarrow> string) \<Rightarrow> string \<Rightarrow> string \<Rightarrow> 'f psutil \<Rightarrow> handled" where
  "dispatch str_float command path os =
     (case MetricsHandler (''do_'' @ command) of
        None \<Rightarrow> \<lparr>os_calls = [], logged = [], reply = Send_error 501\<rparr>
      | Some method \<Rightarrow> method str_float path os)"

section \<open>The server loop and the entry point (lines 104 to 120)\<close>

text \<open>
  What reaches the method dispatch of the listening server: a request that
  \<^verbatim>\<open>parse_request\<close> has accepted (its command, its path as stored in \<^verbatim>\<open>self.path\<close>,
  and what the OS calls answer while it is handled), or an interrupt signal, which Python
  raises as \<^verbatim>\<open>KeyboardInterrupt\<close>. A request that the framework refuses before the
  dispatch runs no code of the program and is not an event here.
\<close>

datatype 'f event = Request string string "'f psutil" | Interrupt

text \<open>
  \<^verbatim>\<open>HTTPServer.serve_forever\<close> belongs to Python's standard library
  (\<^verbatim>\<open>socketserver.BaseServer\<close>), not to the program, and it decides what becomes of
  an exception that escapes a handler. The library catches every \<^verbatim>\<open>Exception\<close> of a
  request, prints the traceback on standard error and goes on with the next request:
  \<open>Report_and_continue\<close>. The other conceivable behaviour, \<open>Propagate\<close>, lets the
  exception leave \<^verbatim>\<open>serve_forever\<close>; it is kept as a parameter so that statements
  on failing requests can be read against both.
\<close>

datatype handler_error_policy = Report_and_continue | Propagate

text \<open>
  How a run of \<^verbatim>\<open>serve_forever\<close> over the given events ends: still waiting for the
  next connection, left by \<^verbatim>\<open>KeyboardInterrupt\<close>, or left by an exception.
\<close>

datatype serve_end = Waiting | Interrupted | Failed py_exception

fun serve_forever ::
  "handler_error_policy \<Rightarrow> ('f \<Rightarrow> string) \<Rightarrow> 'f event list \<Rightarrow> handled list \<times> serve_end" where
  "serve_forever policy str_float [] = ([], Waiting)"
| "serve_forever policy str_float (Interrupt # events) = ([], Interrupted)"
| "serve_forever policy str_float (Request command path os # events) =
     (let h = dispatch str_float command path os in
      case (reply h, policy) of
        (Raised e, Propagate) \<Rightarrow> ([h], Failed e)
      | _ \<Rightarrow> (case serve_forever policy str_float events of (hs, ending) \<Rightarrow> (h # hs, ending)))"

text \<open>
  What a run of the program shows: the records written through \<^verbatim>\<open>logger\<close>, the
  addresses \<^verbatim>\<open>HTTPServer\<close> was asked to bind, the requests handled, and the exit
  status of the process (\<open>None\<close> while it is still serving). A script that runs to
  its end exits with status 0, one that an uncaught exception leaves exits with status 1.
\<close>

record run =
  log_records :: "log_record list"
  binds :: "(string \<times> int) list"
  requests :: "handled list"
  exit_status :: "nat option"

text \<open>
  \<open>bind host port\<close> is what constructing \<^verbatim>\<open>HTTPServer((host, port), ...)\<close> raises,
  if anything.
\<close>

definition main ::
  "handler_error_policy \<Rightarrow> ('f \<Rightarrow> string) \<Rightarrow> string \<Rightarrow> int \<Rightarrow>
   (string \<Rightarrow> int \<Rightarrow> py_exception option) \<Rightarrow> 'f event list \<Rightarrow> run" where
  "main policy str_float host port bind events =
     (let starting = (INFO, ''Starting exporter on '' @ host @ '':'' @ str_int port) in
      case bind host port of
        Some e \<Rightarrow>
          \<lparr>log_records = [starting, (ERROR, ''An error occurred: '' @ str_exception e)],
           binds = [(host, port)],
           requests = [],
           exit_status = Some 0\<rparr>
      | None \<Rightarrow>
          (let running =
                 (INFO, ''Exporter running on http://'' @ host @ '':'' @ str_int port @ ''/'')
           in case serve_forever policy str_float events of
                (hs, Waiting) \<Rightarrow>
                  \<lparr>log_records = starting # running # concat (map logged hs),
                   binds = [(host, port)],
                   requests = hs,
                   exit_status = None\<rparr>
              | (hs, Interrupted) \<Rightarrow>
                  \<lparr>log_records = starting # running # concat (map logged hs)
                     @ [(INFO, ''Shutting down the exporter.'')],
                   binds = [(host, port)],
                   requests = hs,
                   exit_status = Some 0\<rparr>
              | (hs, Failed e) \<Rightarrow>
                  \<lparr>log_records = starting # running # concat (map logged hs)
                     @ [(ERROR, ''An error occurred: '' @ str_exception e)],
                   binds = [(host, port)],
                   requests = hs,
                   exit_status = Some 0\<rparr>))"

text \<open>
  The module from its first line: \<^verbatim>\<open>int(...)\<close> on line 12 runs before logging is
  configured and before the entry point; a \<^verbatim>\<open>ValueError\<close> there is caught by nothing.
\<close>

definition program ::
  "handler_error_policy \<Rightarrow> ('f \<Rightarrow> string) \<Rightarrow> environ \<Rightarrow>
   (string \<Rightarrow> int \<Rightarrow> py_exception option) \<Rightarrow> 'f event list \<Rightarrow> run" where
  "program policy str_float env bind events =
     (case EXPORTER_PORT env of
        None \<Rightarrow> \<lparr>log_records = [], binds = [], requests = [], exit_status = Some 1\<rparr>
      | Some port \<Rightarrow> main policy str_float (EXPORTER_HOST env) port bind events)"

text \<open>
  A list of requests as events, and what handling each of them gives: the vocabulary for
  statements about requests that arrive one after the other.
\<close>

definition request_events :: "(string \<times> string \<times> 'f psutil) list \<Rightarrow> 'f event list" where
  "request_events reqs = map (\<lambda>(command, path, os). Request command path os) reqs"

definition handle_all ::
  "('f \<Rightarrow> string) \<Rightarrow> (string \<times> string \<times> 'f psutil) list \<Rightarrow> handled list" where
  "handle_all str_float reqs =
     map (\<lambda>(command, path, os). dispatch str_float command path os) reqs"

section \<open>Sample inputs\<close>

text \<open>
  In the samples a float is written as the text Python shows for it, so that
  \<open>str_float\<close> is the identity.
\<close>

definition sample_os :: "string psutil" where
  "sample_os =
     \<lparr>cpu_percent = Inr ''42.5'',
      virtual_memory = Inr \<lparr>vm_total = 16000000000, vm_available = 8000000000,
                             vm_percent = ''50.0'', vm_used = 7000000000,
                             vm_free = 2000000000\<rparr>,
      disk_usage = (\<lambda>path. Inr \<lparr>du_total = 500000000000, du_used = 200000000000,
                                     du_free = 300000000000, du_percent = ''40.0''\<rparr>)\<rparr>"

text \<open>The same five readings as \<open>sample_os\<close>; every other field differs.\<close>

definition sample_os_other_fields :: "string psutil" where
  "sample_os_other_fields =
     \<lparr>cpu_percent = Inr ''42.5'',
      virtual_memory = Inr \<lparr>vm_total = 16000000000, vm_available = 8000000000,
                             vm_percent = ''50.1'', vm_used = 7500000000,
                             vm_free = 1000000000\<rparr>,
      disk_usage = (\<lambda>path. if path = ''/''
                             then Inr \<lparr>du_total = 500000000000, du_used = 200000000000,
                                       du_free = 290000000000, du_percent = ''40.8''\<rparr>
                             else Inl (Exception ''[Errno 2] No such file or directory''))\<rparr>"

text \<open>An OS whose disk query fails.\<close>

definition failing_os :: "string psutil" where
  "failing_os =
     \<lparr>cpu_percent = Inr ''42.5'',
      virtual_memory = Inr \<lparr>vm_total = 16000000000, vm_available = 8000000000,
                             vm_percent = ''50.0'', vm_used = 7000000000,
                             vm_free = 2000000000\<rparr>,
      disk_usage = (\<lambda>path. Inl (Exception ''[Errno 13] Permission denied''))\<rparr>"


definition bind_ok :: "string \<Rightarrow> int \<Rightarrow> py_exception option" where
  "bind_ok host port = None"

definition bind_in_use :: "string \<Rightarrow> int \<Rightarrow> py_exception option" where
  "bind_in_use host port = Some (Exception ''[Errno 98] Address already in use'')"

section \<open>Facts about the helpers\<close>

lemma str_nat_small: "n < 10 \<Longrightarrow> str_nat n = [digit_char n]"
  by (simp add: str_nat.simps)

lemma str_nat_big: "10 \<le> n \<Longrightarrow> str_nat n = str_nat (n div 10) @ [digit_char (n mod 10)]"
  by (subst str_nat.simps) simp

lemmas str_int_eval = str_int_def str_nat_small str_nat_big digit_char_def

lemmas py_int_eval = py_int_def strip_def is_space_def unsigned_part_def digit_of_def

lemmas response_eval = send_response_def send_header_def end_headers_def wfile_write_def


subsection \<open>Reading and rendering integers\<close>

text \<open>
  Two facts that tie the model of \<^verbatim>\<open>int(str)\<close> to the one of \<^verbatim>\<open>str(int)\<close> and
  to the characters of its argument: a string with a character that is neither a digit,
  a sign, an underscore nor white space is rejected, and reading back what
  \<open>str_int\<close> renders gives the integer again.
\<close>

lemma dropWhile_keeps: "x \<in> set xs \<Longrightarrow> \<not> P x \<Longrightarrow> x \<in> set (dropWhile P xs)"
  by (induction xs) auto

lemma strip_keeps: "c \<in> set s \<Longrightarrow> \<not> is_space c \<Longrightarrow> c \<in> set (strip s)"
  by (simp add: strip_def dropWhile_keeps)

lemma digit_of_digit_char: "d < 10 \<Longrightarrow> digit_of (digit_char d) = Some d"
proof -
  assume "d < 10"
  then have "d = 0 \<or> d = 1 \<or> d = 2 \<or> d = 3 \<or> d = 4 \<or> d = 5 \<or> d = 6 \<or> d = 7 \<or> d = 8 \<or> d = 9"
    by arith
  then show ?thesis
    by (elim disjE) (simp_all add: digit_char_def digit_of_def)
qed

lemma int_digits_all_digits:
  "(\<And>c. c \<in> set xs \<Longrightarrow> digit_of c \<noteq> None) \<Longrightarrow>
   int_digits acc xs = Some (foldl (\<lambda>a c. 10 * a + the (digit_of c)) acc xs)"
proof (induction xs arbitrary: acc)
  case Nil
  show ?case by simp
next
  case (Cons x xs)
  from Cons.prems [of x] obtain d where d: "digit_of x = Some d" by auto
  have "int_digits (10 * acc + d) xs
      = Some (foldl (\<lambda>a c. 10 * a + the (digit_of c)) (10 * acc + d) xs)"
    by (rule Cons.IH) (simp add: Cons.prems)
  then show ?case by (simp add: d)
qed

lemma int_digits_chars:
  "int_digits acc cs = Some n \<Longrightarrow> c \<in> set cs \<Longrightarrow> digit_of c \<noteq> None \<or> c = CHR ''_''"
proof (induction acc cs rule: int_digits.induct)
  case (1 acc)
  then show ?case by simp
next
  case (2 acc x xs)
  show ?case
  proof (cases "digit_of x")
    case (Some d)
    with "2.prems" have rest: "int_digits (10 * acc + d) xs = Some n" and mem: "c = x \<or> c \<in> set xs"
      by auto
    from mem show ?thesis
    proof
      assume "c = x"
      with Some show ?thesis by simp
    next
      assume "c \<in> set xs"
      with "2.IH" Some rest show ?thesis by blast
    qed
  next
    case None
    with "2.prems"(1) have us: "x = CHR ''_''"
      by (simp split: if_splits)
    with None "2.prems"(1) obtain y ys d where xs: "xs = y # ys" and d: "digit_of y = Some d"
        and rest: "int_digits (10 * acc + d) ys = Some n"
      by (auto split: list.splits option.splits)
    have "c \<in> set ys \<Longrightarrow> digit_of c \<noteq> None \<or> c = CHR ''_''"
      using "2.IH" None us xs d rest by blast
    with "2.prems"(2) us xs d show ?thesis by auto
  qed
qed

lemma str_nat_digits: "c \<in> set (str_nat n) \<Longrightarrow> digit_of c \<noteq> None"
proof (induction n rule: str_nat.induct)
  case (1 n)
  show ?case
  proof (cases "n < 10")
    case True
    with "1.prems" show ?thesis
      by (simp add: str_nat_small digit_of_digit_char)
  next
    case False
    with "1.prems" "1.IH" show ?thesis
      by (auto simp: str_nat_big digit_of_digit_char)
  qed
qed

lemma str_nat_value: "foldl (\<lambda>a c. 10 * a + the (digit_of c)) 0 (str_nat n) = n"
proof (induction n rule: str_nat.induct)
  case (1 n)
  show ?case
  proof (cases "n < 10")
    case True
    then show ?thesis
      by (simp add: str_nat_small digit_of_digit_char)
  next
    case False
    with "1.IH" show ?thesis
      by (simp add: str_nat_big digit_of_digit_char)
  qed
qed

lemma str_nat_not_empty: "str_nat n \<noteq> []"
  by (cases "n < 10") (simp_all add: str_nat_small str_nat_big)

lemma int_digits_str_nat: "int_digits 0 (str_nat n) = Some n"
proof -
  have "int_digits 0 (str_nat n)
      = Some (foldl (\<lambda>a c. 10 * a + the (digit_of c)) 0 (str_nat n))"
    by (rule int_digits_all_digits) (rule str_nat_digits)
  then show ?thesis by (simp add: str_nat_value)
qed

lemma digit_not_space: "digit_of c \<noteq> None \<Longrightarrow> \<not> is_space c"
proof
  assume d: "digit_of c \<noteq> None" and "is_space c"
  then have "c = CHR '' '' \<or> c = CHR 0x09 \<or> c = CHR 0x0A \<or> c = CHR 0x0B
      \<or> c = CHR 0x0C \<or> c = CHR 0x0D"
    by (simp add: is_space_def)
  then have "digit_of c = None"
    by (elim disjE) (simp_all add: digit_of_def)
  with d show False by simp
qed

lemma dropWhile_none: "(\<And>c. c \<in> set xs \<Longrightarrow> \<not> P c) \<Longrightarrow> dropWhile P xs = xs"
  by (cases xs) simp_all

lemma strip_no_space:
  assumes "\<And>c. c \<in> set s \<Longrightarrow> \<not> is_space c"
  shows "strip s = s"
proof -
  have "dropWhile is_space s = s"
    using assms by (rule dropWhile_none)
  moreover have "dropWhile is_space (rev s) = rev s"
    by (rule dropWhile_none) (simp add: assms)
  ultimately show ?thesis by (simp add: strip_def)
qed

lemma py_int_str_nat: "py_int (str_nat n) = Some (int n)"
proof -
  obtain c cs where cs: "str_nat n = c # cs"
    using str_nat_not_empty [of n] by (cases "str_nat n") simp_all
  have "digit_of c \<noteq> None"
    by (rule str_nat_digits [of c n]) (simp add: cs)
  then obtain d where d: "digit_of c = Some d" by blast
  have "strip (str_nat n) = str_nat n"
    by (rule strip_no_space) (rule digit_not_space, rule str_nat_digits)
  then have stripped: "strip (c # cs) = c # cs"
    by (simp add: cs)
  have minus: "c \<noteq> CHR ''-''" and plus: "c \<noteq> CHR ''+''"
    using d by (auto simp: digit_of_def)
  have "int_digits 0 (c # cs) = Some n"
    using int_digits_str_nat [of n] by (simp add: cs)
  then have rest: "int_digits d cs = Some n"
    by (simp add: d)
  show ?thesis
    by (simp add: py_int_def cs stripped unsigned_part_def minus plus d rest)
qed

lemma py_int_str_int: "py_int (str_int i) = Some i"
proof (cases "i < 0")
  case False
  then show ?thesis by (simp add: str_int_def py_int_str_nat)
next
  case True
  let ?n = "nat (- i)"
  obtain c cs where cs: "str_nat ?n = c # cs"
    using str_nat_not_empty [of ?n] by (cases "str_nat ?n") simp_all
  have "digit_of c \<noteq> None"
    by (rule str_nat_digits [of c ?n]) (simp add: cs)
  then obtain d where d: "digit_of c = Some d" by blast
  have "\<not> is_space x" if "x \<in> set (CHR ''-'' # str_nat ?n)" for x
  proof (cases "x = CHR ''-''")
    case True
    then show ?thesis by (simp add: is_space_def)
  next
    case False
    with that have "x \<in> set (str_nat ?n)" by simp
    then show ?thesis by (intro digit_not_space str_nat_digits)
  qed
  then have "strip (CHR ''-'' # str_nat ?n) = CHR ''-'' # str_nat ?n"
    by (rule strip_no_space)
  then have stripped: "strip (CHR ''-'' # c # cs) = CHR ''-'' # c # cs"
    by (simp only: cs)
  have "int_digits 0 (c # cs) = Some ?n"
    using int_digits_str_nat [of ?n] by (simp add: cs)
  then have rest: "int_digits d cs = Some ?n"
    by (simp add: d)
  have "py_int (CHR ''-'' # c # cs) = Some (- int ?n)"
    by (simp add: py_int_def stripped unsigned_part_def d rest)
  then have "py_int (CHR ''-'' # str_nat ?n) = Some (- int ?n)"
    by (simp only: cs)
  moreover from True have "- int ?n = i"
    by simp
  moreover from True have "str_int i = CHR ''-'' # str_nat ?n"
    by (simp add: str_int_def)
  ultimately show ?thesis
    by simp
qed

lemma py_int_chars:
  assumes "py_int s = Some v" and "c \<in> set (strip s)"
  shows "digit_of c \<noteq> None \<or> c = CHR ''_'' \<or> c = CHR ''+'' \<or> c = CHR ''-''"
proof -
  obtain neg u where u: "unsigned_part (strip s) = (neg, u)"
    by (cases "unsigned_part (strip s)")
  from assms(1) u obtain x xs d n where xs: "u = x # xs" and d: "digit_of x = Some d"
      and n: "int_digits d xs = Some n"
    by (auto simp: py_int_def split: list.splits option.splits)
  have in_u: "digit_of y \<noteq> None \<or> y = CHR ''_''" if "y \<in> set u" for y
  proof (cases "y = x")
    case True
    with d show ?thesis by simp
  next
    case False
    with that xs have "y \<in> set xs" by simp
    with n show ?thesis by (rule int_digits_chars)
  qed
  have "c \<in> set u \<or> c = CHR ''+'' \<or> c = CHR ''-''"
  proof (cases "strip s")
    case Nil
    with assms(2) show ?thesis by simp
  next
    case (Cons y ys)
    with u have "u = ys \<and> (y = CHR ''-'' \<or> y = CHR ''+'') \<or> u = y # ys"
      by (auto simp: unsigned_part_def split: if_splits)
    moreover from Cons assms(2) have "c = y \<or> c \<in> set ys"
      by simp
    ultimately show ?thesis by auto
  qed
  with in_u show ?thesis by blast
qed

lemma py_int_rejects_other_characters:
  assumes "c \<in> set s"
    and "digit_of c = None"
    and "c \<noteq> CHR ''_''" and "c \<noteq> CHR ''+''" and "c \<noteq> CHR ''-''"
    and "\<not> is_space c"
  shows "py_int s = None"
proof (rule ccontr)
  assume "py_int s \<noteq> None"
  then obtain v where v: "py_int s = Some v" by blast
  from assms(1,6) have "c \<in> set (strip s)" by (rule strip_keeps)
  with v have "digit_of c \<noteq> None \<or> c = CHR ''_'' \<or> c = CHR ''+'' \<or> c = CHR ''-''"
    by (rule py_int_chars)
  with assms(2-5) show False by simp
qed

subsection \<open>The lines of a text\<close>

lemma split_lines_line:
  "CHR 0x0A \<notin> set l \<Longrightarrow> split_lines (l @ CHR 0x0A # rest) = l # split_lines rest"
  by (induction l) auto

lemma split_lines_last: "CHR 0x0A \<notin> set l \<Longrightarrow> split_lines l = [l]"
  by (induction l) auto

lemma split_lines_join:
  "ls \<noteq> [] \<Longrightarrow> (\<And>l. l \<in> set ls \<Longrightarrow> CHR 0x0A \<notin> set l) \<Longrightarrow>
   split_lines (str_join [CHR 0x0A] ls) = ls"
proof (induction "[CHR 0x0A]" ls rule: str_join.induct)
  case 1
  then show ?case by simp
next
  case (2 x)
  then show ?case by (simp add: split_lines_last)
next
  case (3 x y ys)
  have "split_lines (str_join [CHR 0x0A] (y # ys)) = y # ys"
    by (rule 3) (simp_all add: "3.prems")
  moreover have "CHR 0x0A \<notin> set x"
    by (rule "3.prems") simp
  ultimately show ?case
    by (simp add: split_lines_line)
qed

lemma str_int_no_newline: "CHR 0x0A \<notin> set (str_int i)"
proof
  assume "CHR 0x0A \<in> set (str_int i)"
  then have "CHR 0x0A \<in> set (str_nat (nat (- i))) \<or> CHR 0x0A \<in> set (str_nat (nat i))"
    by (auto simp: str_int_def split: if_splits)
  then have "digit_of (CHR 0x0A) \<noteq> None"
    using str_nat_digits by blast
  then show False
    by (simp add: digit_of_def)
qed

lemma split_lines_metrics:
  assumes "CHR 0x0A \<notin> set (str_float c)"
  shows "split_lines (str_join newline (metrics_lines str_float c mt mu dt du)) =
           metrics_lines str_float c mt mu dt du"
  unfolding newline_def
proof (rule split_lines_join)
  show "metrics_lines str_float c mt mu dt du \<noteq> []"
    by (simp add: metrics_lines_def)
next
  fix l
  assume "l \<in> set (metrics_lines str_float c mt mu dt du)"
  then show "CHR 0x0A \<notin> set l"
    using assms by (auto simp: metrics_lines_def str_int_no_newline)
qed

lemma emitted_value_metrics:
  assumes "CHR 0x0A \<notin> set (str_float c)"
  shows "emitted_value ''memory_total''
           (str_join newline (metrics_lines str_float c mt mu dt du)) = Some mt"
    and "emitted_value ''memory_used''
           (str_join newline (metrics_lines str_float c mt mu dt du)) = Some mu"
    and "emitted_value ''disk_total''
           (str_join newline (metrics_lines str_float c mt mu dt du)) = Some dt"
    and "emitted_value ''disk_used''
           (str_join newline (metrics_lines str_float c mt mu dt du)) = Some du"
  unfolding emitted_value_def
    split_lines_metrics [where str_float = str_float and c = c, OF assms]
  by (simp_all add: metrics_lines_def py_int_str_int)

subsection \<open>Dispatch and the server loop\<close>

lemma dispatch_GET:
  "dispatch str_float ''GET'' path os = do_GET str_float path os"
  by (simp add: dispatch_def MetricsHandler_def)

lemma dispatch_other:
  "command \<noteq> ''GET'' \<Longrightarrow>
   dispatch str_float command path os =
     \<lparr>os_calls = [], logged = [], reply = Send_error 501\<rparr>"
  by (simp add: dispatch_def MetricsHandler_def)

lemma do_GET_logs_no_error: "(ERROR, msg) \<notin> set (logged (do_GET str_float path os))"
  by (simp add: do_GET_def split: prod.splits sum.splits)

lemma dispatch_logs_no_error:
  "(ERROR, msg) \<notin> set (logged (dispatch str_float command path os))"
  by (cases "command = ''GET''")
     (simp_all add: dispatch_GET dispatch_other do_GET_logs_no_error)

lemma handle_all_logs_no_error:
  "(ERROR, msg) \<notin> set (concat (map logged (handle_all str_float reqs)))"
  by (induction reqs) (auto simp: handle_all_def dispatch_logs_no_error)

lemma handle_all_levels:
  "ERROR \<notin> fst ` set (concat (map logged (handle_all str_float reqs)))"
proof
  assume "ERROR \<in> fst ` set (concat (map logged (handle_all str_float reqs)))"
  then obtain msg where "(ERROR, msg) \<in> set (concat (map logged (handle_all str_float reqs)))"
    by force
  then show False
    using handle_all_logs_no_error by blast
qed

lemma serve_forever_requests:
  "serve_forever Report_and_continue str_float (request_events reqs @ events) =
     (handle_all str_float reqs @ fst (serve_forever Report_and_continue str_float events),
      snd (serve_forever Report_and_continue str_float events))"
proof (induction reqs)
  case Nil
  show ?case by (simp add: request_events_def handle_all_def)
next
  case (Cons r reqs)
  obtain command path os where r: "r = (command, path, os)"
    by (cases r) auto
  from Cons show ?case
    by (simp add: r request_events_def handle_all_def Let_def
             split: reply.splits handler_error_policy.splits prod.splits)
qed

lemma serve_forever_only_requests:
  "serve_forever Report_and_continue str_float (request_events reqs) =
     (handle_all str_float reqs, Waiting)"
  using serve_forever_requests [of str_float reqs "[]"] by simp

lemma serve_forever_interrupted:
  "serve_forever Report_and_continue str_float (request_events reqs @ Interrupt # events) =
     (handle_all str_float reqs, Interrupted)"
  using serve_forever_requests [of str_float reqs "Interrupt # events"] by simp

section \<open>The handler's responses\<close>




text \<open>
  C2. A request for any path other than \<^verbatim>\<open>/\<close> is answered with status 404 and an
  empty body.
\<close>

theorem do_GET_other_path_404:
  assumes "path \<noteq> ''/''"
  shows "reply (do_GET str_float path os) = Sent \<lparr>status = 404, headers = [], body = []\<rparr>"
  using assms
  unfolding do_GET_def send_response_def end_headers_def
  by simp

theorem do_GET_other_path_404_witness:
  "''/metrics'' \<noteq> ''/'' \<and>
   reply (do_GET (\<lambda>r. r) ''/metrics'' sample_os) =
     Sent \<lparr>status = 404, headers = [], body = []\<rparr>"
  using do_GET_other_path_404 [of "''/metrics''" "\<lambda>r. r" sample_os]
  by simp

section \<open>The values sent\<close>

text \<open>
  C3. When the OS reports an available memory between 0 and the total memory and a used
  disk space of at most the total disk space, the text that \<^verbatim>\<open>generate_metrics\<close>
  returns gives a value for memory_used that is at most the value it gives for
  memory_total, and a value for disk_used that is at most the value it gives for
  disk_total. The values are read from the text itself (\<open>emitted_value\<close>); they are
  the total and the total minus the available memory, and the total and the used disk
  space. Python's rendering of a float is taken to hold no newline.
\<close>

theorem generate_metrics_used_le_total:
  assumes "cpu_percent os = Inr c"
    and "CHR 0x0A \<notin> set (str_float c)"
    and "virtual_memory os = Inr m"
    and "disk_usage os ''/'' = Inr d"
    and "0 \<le> vm_available m"
    and "vm_available m \<le> vm_total m"
    and "du_used d \<le> du_total d"
  shows "\<exists>body memory_total memory_used disk_total disk_used.
           snd (generate_metrics str_float os) = Inr body
         \<and> emitted_value ''memory_total'' body = Some memory_total
         \<and> emitted_value ''memory_used'' body = Some memory_used
         \<and> memory_used \<le> memory_total
         \<and> emitted_value ''disk_total'' body = Some disk_total
         \<and> emitted_value ''disk_used'' body = Some disk_used
         \<and> disk_used \<le> disk_total
         \<and> memory_total = vm_total m
         \<and> memory_used = vm_total m - vm_available m
         \<and> disk_total = du_total d
         \<and> disk_used = du_used d"
proof -
  let ?body = "str_join newline
      (metrics_lines str_float c (vm_total m) (vm_total m - vm_available m)
         (du_total d) (du_used d))"
  have "snd (generate_metrics str_float os) = Inr ?body"
    using assms(1,3,4) by (simp add: generate_metrics_def Let_def)
  moreover note emitted_value_metrics [where str_float = str_float and c = c
      and mt = "vm_total m" and mu = "vm_total m - vm_available m"
      and dt = "du_total d" and du = "du_used d", OF assms(2)]
  moreover have "vm_total m - vm_available m \<le> vm_total m"
    using assms(5) by simp
  moreover note assms(7)
  ultimately show ?thesis by blast
qed

theorem generate_metrics_used_le_total_witness:
  "\<exists>body. snd (generate_metrics (\<lambda>r. r) sample_os) = Inr body
         \<and> emitted_value ''memory_total'' body = Some 16000000000
         \<and> emitted_value ''memory_used'' body = Some 8000000000
         \<and> (8000000000 :: int) \<le> 16000000000
         \<and> emitted_value ''disk_total'' body = Some 500000000000
         \<and> emitted_value ''disk_used'' body = Some 200000000000
         \<and> (200000000000 :: int) \<le> 500000000000"
proof -
  let ?m = "\<lparr>vm_total = 16000000000, vm_available = 8000000000,
       vm_percent = ''50.0'', vm_used = 7000000000, vm_free = 2000000000 :: int\<rparr>"
  let ?d = "\<lparr>du_total = 500000000000, du_used = 200000000000,
       du_free = 300000000000 :: int, du_percent = ''40.0''\<rparr>"
  have cpu: "cpu_percent sample_os = Inr ''42.5''"
    by (simp add: sample_os_def)
  have mem: "virtual_memory sample_os = Inr ?m"
    by (simp add: sample_os_def)
  have disk: "disk_usage sample_os ''/'' = Inr ?d"
    by (simp add: sample_os_def)
  have shown: "CHR 0x0A \<notin> set ((\<lambda>r. r) ''42.5'')"
    by simp
  have "0 \<le> vm_available ?m" and "vm_available ?m \<le> vm_total ?m" and "du_used ?d \<le> du_total ?d"
    by simp_all
  from generate_metrics_used_le_total [where os = sample_os and c = "''42.5''" and m = ?m
      and d = ?d and str_float = "\<lambda>r. r", OF cpu shown mem disk this]
  show ?thesis by simp
qed




section \<open>What the responses depend on\<close>

text \<open>
  C9. \<^verbatim>\<open>generate_metrics\<close> is a function of the five readings: two calls that see the
  same CPU percentage, memory total, memory available, disk total and disk used return
  the same text (and make the same OS calls), whatever else the OS reports.
\<close>

theorem generate_metrics_deterministic:
  assumes "cpu_percent os1 = Inr c" and "cpu_percent os2 = Inr c"
    and "virtual_memory os1 = Inr m1" and "virtual_memory os2 = Inr m2"
    and "vm_total m1 = vm_total m2" and "vm_available m1 = vm_available m2"
    and "disk_usage os1 ''/'' = Inr d1" and "disk_usage os2 ''/'' = Inr d2"
    and "du_total d1 = du_total d2" and "du_used d1 = du_used d2"
  shows "generate_metrics str_float os1 = generate_metrics str_float os2"
  using assms by (simp add: generate_metrics_def Let_def)

theorem generate_metrics_deterministic_witness:
  "sample_os \<noteq> sample_os_other_fields
   \<and> generate_metrics (\<lambda>r. r) sample_os = generate_metrics (\<lambda>r. r) sample_os_other_fields"
proof -
  let ?m1 = "\<lparr>vm_total = 16000000000, vm_available = 8000000000,
       vm_percent = ''50.0'', vm_used = 7000000000, vm_free = 2000000000 :: int\<rparr>"
  let ?m2 = "\<lparr>vm_total = 16000000000, vm_available = 8000000000,
       vm_percent = ''50.1'', vm_used = 7500000000, vm_free = 1000000000 :: int\<rparr>"
  let ?d1 = "\<lparr>du_total = 500000000000, du_used = 200000000000,
       du_free = 300000000000 :: int, du_percent = ''40.0''\<rparr>"
  let ?d2 = "\<lparr>du_total = 500000000000, du_used = 200000000000,
       du_free = 290000000000 :: int, du_percent = ''40.8''\<rparr>"
  have differ: "sample_os \<noteq> sample_os_other_fields"
  proof
    assume "sample_os = sample_os_other_fields"
    then have "virtual_memory sample_os = virtual_memory sample_os_other_fields"
      by simp
    then show False
      by (simp add: sample_os_def sample_os_other_fields_def)
  qed
  have same: "generate_metrics (\<lambda>r. r) sample_os
      = generate_metrics (\<lambda>r. r) sample_os_other_fields"
  proof (rule generate_metrics_deterministic [where ?c = "''42.5''"
          and ?m1.0 = ?m1 and ?m2.0 = ?m2 and ?d1.0 = ?d1 and ?d2.0 = ?d2])
  qed (simp_all add: sample_os_def sample_os_other_fields_def)
  from differ same show ?thesis by blast
qed

text \<open>
  C10. For a path other than \<^verbatim>\<open>/\<close> the handler makes no OS call, and what it does
  (the 404 response and the warning it logs) is the same whatever the OS would have
  answered.
\<close>

theorem do_GET_other_path_no_os_reads:
  assumes "path \<noteq> ''/''"
  shows "os_calls (do_GET str_float path os) = []
         \<and> do_GET str_float path os = do_GET str_float path os'"
  using assms by (simp add: do_GET_def)

theorem do_GET_other_path_no_os_reads_witness:
  "''/favicon.ico'' \<noteq> ''/''
   \<and> os_calls (do_GET (\<lambda>r. r) ''/favicon.ico'' sample_os) = []
   \<and> do_GET (\<lambda>r. r) ''/favicon.ico'' sample_os = do_GET (\<lambda>r. r) ''/favicon.ico'' failing_os"
proof -
  have ne: "''/favicon.ico'' \<noteq> ''/''" by simp
  from ne do_GET_other_path_no_os_reads [OF ne, of "\<lambda>r. r" sample_os failing_os]
  show ?thesis by blast
qed

section \<open>Methods other than GET\<close>




section \<open>Start and end of the process\<close>

text \<open>
  C6. When \<^verbatim>\<open>EXPORTER_PORT\<close> is set to a string that is not a number, that is, one
  that \<^verbatim>\<open>int\<close> rejects (by \<open>py_int_rejects_other_characters\<close> every string with a
  letter or a punctuation mark is one), the program ends with the uncaught error (exit
  status 1) before \<^verbatim>\<open>HTTPServer\<close> is asked to bind any address: no port is bound,
  neither the default nor another one, and nothing is logged.
\<close>

theorem program_malformed_port:
  assumes "env ''EXPORTER_PORT'' = Some s"
    and "is_ascii s"
    and "py_int s = None"
  shows "program policy str_float env bind events =
           \<lparr>log_records = [], binds = [], requests = [], exit_status = Some 1\<rparr>"
  using assms by (simp add: program_def EXPORTER_PORT_def environ_get_def)

theorem program_malformed_port_witness:
  "is_ascii ''80a1'' \<and> py_int ''80a1'' = None
   \<and> program Report_and_continue (\<lambda>r. r) [''EXPORTER_PORT'' \<mapsto> ''80a1''] bind_ok
       [Request ''GET'' ''/'' sample_os] =
       \<lparr>log_records = [], binds = [], requests = [], exit_status = Some 1\<rparr>"
proof -
  have bad: "py_int ''80a1'' = None"
    by (simp add: py_int_eval)
  have ascii: "is_ascii ''80a1''"
    by (simp add: is_ascii_def)
  have set: "[''EXPORTER_PORT'' \<mapsto> ''80a1''] ''EXPORTER_PORT'' = Some ''80a1''"
    by simp
  from bad ascii program_malformed_port [where env = "[''EXPORTER_PORT'' \<mapsto> ''80a1'']"
      and s = "''80a1''", OF set ascii bad]
  show ?thesis by blast
qed

text \<open>
  C7, as the specification words it, says that a bind failure ends the process with a
  non-zero status. It fails: with the port in use the error is logged and the script runs
  to its end, so the exit status is 0.
\<close>

theorem bind_failure_exits_with_status_0:
  "main Report_and_continue (\<lambda>r. r) ''0.0.0.0'' 8081 bind_in_use
     [Request ''GET'' ''/'' sample_os] =
     \<lparr>log_records = [(INFO, ''Starting exporter on 0.0.0.0:8081''),
                      (ERROR, ''An error occurred: [Errno 98] Address already in use'')],
      binds = [(''0.0.0.0'', 8081)],
      requests = [],
      exit_status = Some 0\<rparr>"
  by (simp add: main_def bind_in_use_def str_int_eval)

text \<open>
  C7, amended. On an interrupt the process logs \<^verbatim>\<open>Shutting down the exporter.\<close> and
  exits with status 0, the requests before the interrupt having been handled and those
  after it not; on a bind failure the process logs the error at level ERROR, handles no
  request, and exits with status 0 as well.
\<close>

theorem main_exit_status:
  "(bind host port = Some e \<longrightarrow>
      main policy str_float host port bind events =
        \<lparr>log_records = [(INFO, ''Starting exporter on '' @ host @ '':'' @ str_int port),
                         (ERROR, ''An error occurred: '' @ str_exception e)],
         binds = [(host, port)],
         requests = [],
         exit_status = Some 0\<rparr>)
   \<and> (bind host port = None \<longrightarrow>
      main Report_and_continue str_float host port bind
          (request_events reqs @ Interrupt # events) =
        \<lparr>log_records =
           (INFO, ''Starting exporter on '' @ host @ '':'' @ str_int port)
           # (INFO, ''Exporter running on http://'' @ host @ '':'' @ str_int port @ ''/'')
           # concat (map logged (handle_all str_float reqs))
           @ [(INFO, ''Shutting down the exporter.'')],
         binds = [(host, port)],
         requests = handle_all str_float reqs,
         exit_status = Some 0\<rparr>)"
  by (simp add: main_def serve_forever_interrupted)

theorem main_exit_status_witness:
  "main Report_and_continue (\<lambda>r. r) ''0.0.0.0'' 8081 bind_in_use [] =
        \<lparr>log_records = [(INFO, ''Starting exporter on 0.0.0.0:8081''),
                         (ERROR, ''An error occurred: [Errno 98] Address already in use'')],
         binds = [(''0.0.0.0'', 8081)],
         requests = [],
         exit_status = Some 0\<rparr>
   \<and> main Report_and_continue (\<lambda>r. r) ''0.0.0.0'' 8081 bind_ok
          [Request ''GET'' ''/nothing'' sample_os, Interrupt, Request ''GET'' ''/'' sample_os] =
        \<lparr>log_records =
           [(INFO, ''Starting exporter on 0.0.0.0:8081''),
            (INFO, ''Exporter running on http://0.0.0.0:8081/''),
            (WARNING, ''Received GET request for unknown path: /nothing''),
            (INFO, ''Shutting down the exporter.'')],
         binds = [(''0.0.0.0'', 8081)],
         requests = [\<lparr>os_calls = [],
                      logged = [(WARNING, ''Received GET request for unknown path: /nothing'')],
                      reply = Sent \<lparr>status = 404, headers = [], body = []\<rparr>\<rparr>],
         exit_status = Some 0\<rparr>"
proof -
  have fails: "bind_in_use ''0.0.0.0'' 8081 = Some (Exception ''[Errno 98] Address already in use'')"
    by (simp add: bind_in_use_def)
  have binds: "bind_ok ''0.0.0.0'' 8081 = None"
    by (simp add: bind_ok_def)
  have evs: "request_events [(''GET'', ''/nothing'', sample_os)] @ Interrupt # [Request ''GET'' ''/'' sample_os]
     = [Request ''GET'' ''/nothing'' sample_os, Interrupt, Request ''GET'' ''/'' sample_os]"
    by (simp add: request_events_def)
  have first: "main Report_and_continue (\<lambda>r. r) ''0.0.0.0'' 8081 bind_in_use [] =
        \<lparr>log_records = [(INFO, ''Starting exporter on 0.0.0.0:8081''),
                         (ERROR, ''An error occurred: [Errno 98] Address already in use'')],
         binds = [(''0.0.0.0'', 8081)],
         requests = [],
         exit_status = Some 0\<rparr>"
    using main_exit_status [where bind = bind_in_use and host = "''0.0.0.0''" and port = 8081
        and e = "Exception ''[Errno 98] Address already in use''" and policy = Report_and_continue
        and str_float = "\<lambda>r. r" and events = "[]"] fails
    by (simp add: str_int_eval)
  have second: "main Report_and_continue (\<lambda>r. r) ''0.0.0.0'' 8081 bind_ok
          [Request ''GET'' ''/nothing'' sample_os, Interrupt, Request ''GET'' ''/'' sample_os] =
        \<lparr>log_records =
           [(INFO, ''Starting exporter on 0.0.0.0:8081''),
            (INFO, ''Exporter running on http://0.0.0.0:8081/''),
            (WARNING, ''Received GET request for unknown path: /nothing''),
            (INFO, ''Shutting down the exporter.'')],
         binds = [(''0.0.0.0'', 8081)],
         requests = [\<lparr>os_calls = [],
                      logged = [(WARNING, ''Received GET request for unknown path: /nothing'')],
                      reply = Sent \<lparr>status = 404, headers = [], body = []\<rparr>\<rparr>],
         exit_status = Some 0\<rparr>"
    using main_exit_status [where bind = bind_ok and host = "''0.0.0.0''" and port = 8081
        and str_float = "\<lambda>r. r" and reqs = "[(''GET'', ''/nothing'', sample_os)]"
        and events = "[Request ''GET'' ''/'' sample_os]"] binds
    by (simp add: evs str_int_eval handle_all_def dispatch_GET do_GET_def response_eval)
  from first second show ?thesis by blast
qed

section \<open>A request that raises\<close>

text \<open>
  C8, as the specification words it, says that an exception of a request is caught at
  the top level and logged, and that the server goes on serving. It fails whatever the
  server loop does with the exception: when the loop keeps it (as the library does), the
  top-level handler logs nothing; when the loop lets it pass, the top-level handler logs
  it and the process ends without serving the next request.
\<close>

theorem failing_request_top_level:
  "main Report_and_continue (\<lambda>r. r) ''0.0.0.0'' 8081 bind_ok
     [Request ''GET'' ''/'' failing_os, Request ''GET'' ''/nothing'' sample_os] =
     \<lparr>log_records =
        [(INFO, ''Starting exporter on 0.0.0.0:8081''),
         (INFO, ''Exporter running on http://0.0.0.0:8081/''),
         (INFO, ''Received GET request for metrics.''),
         (WARNING, ''Received GET request for unknown path: /nothing'')],
      binds = [(''0.0.0.0'', 8081)],
      requests =
        [\<lparr>os_calls = [Cpu_percent, Virtual_memory, Disk_usage ''/''],
          logged = [(INFO, ''Received GET request for metrics.'')],
          reply = Raised (Exception ''[Errno 13] Permission denied'')\<rparr>,
         \<lparr>os_calls = [],
          logged = [(WARNING, ''Received GET request for unknown path: /nothing'')],
          reply = Sent \<lparr>status = 404, headers = [], body = []\<rparr>\<rparr>],
      exit_status = None\<rparr>
   \<and> main Propagate (\<lambda>r. r) ''0.0.0.0'' 8081 bind_ok
     [Request ''GET'' ''/'' failing_os, Request ''GET'' ''/nothing'' sample_os] =
     \<lparr>log_records =
        [(INFO, ''Starting exporter on 0.0.0.0:8081''),
         (INFO, ''Exporter running on http://0.0.0.0:8081/''),
         (INFO, ''Received GET request for metrics.''),
         (ERROR, ''An error occurred: [Errno 13] Permission denied'')],
      binds = [(''0.0.0.0'', 8081)],
      requests =
        [\<lparr>os_calls = [Cpu_percent, Virtual_memory, Disk_usage ''/''],
          logged = [(INFO, ''Received GET request for metrics.'')],
          reply = Raised (Exception ''[Errno 13] Permission denied'')\<rparr>],
      exit_status = Some 0\<rparr>"
  by (simp add: main_def bind_ok_def str_int_eval dispatch_GET do_GET_def
        generate_metrics_def failing_os_def response_eval Let_def)

text \<open>
  C8, amended. An exception raised while a request is handled never reaches the
  top-level handler of the program: the server loop of the library keeps it, the request
  gets no response, every request before and after it is handled as usual, the process
  keeps running, and no record of level ERROR is written to the program's log.
\<close>

theorem failing_request_does_not_stop_serving:
  assumes "reply (dispatch str_float command path os) = Raised e"
    and "bind host port = None"
  shows "exit_status (main Report_and_continue str_float host port bind
           (request_events before @ Request command path os # request_events after)) = None
     \<and> requests (main Report_and_continue str_float host port bind
           (request_events before @ Request command path os # request_events after)) =
         handle_all str_float before
         @ dispatch str_float command path os
         # handle_all str_float after
     \<and> ERROR \<notin> fst ` set (log_records (main Report_and_continue str_float host port bind
           (request_events before @ Request command path os # request_events after)))"
proof -
  have evs: "request_events before @ Request command path os # request_events after
      = request_events (before @ (command, path, os) # after)"
    by (simp add: request_events_def)
  have all: "handle_all str_float (before @ (command, path, os) # after)
      = handle_all str_float before
        @ dispatch str_float command path os # handle_all str_float after"
    by (simp add: handle_all_def)
  have no_error: "ERROR \<notin> fst ` set (concat (map logged
      (handle_all str_float (before @ (command, path, os) # after))))"
    by (rule handle_all_levels)
  show ?thesis
    using assms(2) no_error
    by (simp add: evs main_def serve_forever_only_requests all)
qed

theorem failing_request_does_not_stop_serving_witness:
  "reply (dispatch (\<lambda>r. r) ''GET'' ''/'' failing_os) =
     Raised (Exception ''[Errno 13] Permission denied'')
   \<and> exit_status (main Report_and_continue (\<lambda>r. r) ''0.0.0.0'' 8081 bind_ok
        [Request ''GET'' ''/'' failing_os, Request ''GET'' ''/nothing'' sample_os]) = None
   \<and> map reply (requests (main Report_and_continue (\<lambda>r. r) ''0.0.0.0'' 8081 bind_ok
        [Request ''GET'' ''/'' failing_os, Request ''GET'' ''/nothing'' sample_os])) =
       [Raised (Exception ''[Errno 13] Permission denied''),
        Sent \<lparr>status = 404, headers = [], body = []\<rparr>]
   \<and> ERROR \<notin> fst ` set (log_records (main Report_and_continue (\<lambda>r. r) ''0.0.0.0'' 8081
        bind_ok [Request ''GET'' ''/'' failing_os, Request ''GET'' ''/nothing'' sample_os]))"
proof -
  have raised: "reply (dispatch (\<lambda>r. r) ''GET'' ''/'' failing_os) =
      Raised (Exception ''[Errno 13] Permission denied'')"
    by (simp add: dispatch_GET do_GET_def generate_metrics_def failing_os_def Let_def)
  have binds: "bind_ok ''0.0.0.0'' 8081 = None"
    by (simp add: bind_ok_def)
  have evs: "request_events [] @ Request ''GET'' ''/'' failing_os
        # request_events [(''GET'', ''/nothing'', sample_os)]
      = [Request ''GET'' ''/'' failing_os, Request ''GET'' ''/nothing'' sample_os]"
    by (simp add: request_events_def)
  have second: "reply (dispatch (\<lambda>r. r) ''GET'' ''/nothing'' sample_os) =
      Sent \<lparr>status = 404, headers = [], body = []\<rparr>"
    by (simp add: dispatch_GET do_GET_def response_eval)
  from failing_request_does_not_stop_serving
      [where str_float = "\<lambda>r. r" and command = "''GET''" and path = "''/''"
         and os = failing_os and e = "Exception ''[Errno 13] Permission denied''"
         and bind = bind_ok and host = "''0.0.0.0''" and port = 8081
         and before = "[]" and after = "[(''GET'', ''/nothing'', sample_os)]",
       OF raised binds]
  show ?thesis
    using raised second by (simp add: evs handle_all_def)
qed

end
